theory Spec2Isabelle
  imports
    Main
    "HOL-Library.Char_ord"
    "HOL-Library.List_Lexorder"
    "HOL-Library.Product_Lexorder"
begin

section \<open>Errors\<close>

text \<open>
  \<^verbatim>\<open>code_generator.py\<close> raises \<^verbatim>\<open>RuntimeError\<close> with four different messages;
  each message is a constructor here, carrying the values the message interpolates.
  \<open>KeyError\<close> is Python's own exception for a missing dictionary key,
  \<open>TypeError\<close> is what \<^verbatim>\<open>dataclasses.make_dataclass\<close> raises for a field name it
  rejects, \<open>QueryError\<close> is an error that the database reports for a query, and
  \<open>Raised\<close> stands for an exception of a collaborator that is not part of this module
  (the conversion of a default literal).
\<close>

datatype error =
    UnrecognizedType string
  | CrossSchemaReference string string
  | DuplicateForeignKey string
  | EmptySchema string
  | KeyError string
  | TypeError string
  | QueryError string
  | Raised string

section \<open>The type mapper\<close>

datatype py_type = PyStr | PyBool | PyInt | PyFloat | PyDate | PyTime | PyDatetime

text \<open>The outer type of a column: \<^verbatim>\<open>py_type\<close> itself or \<^verbatim>\<open>Optional[py_type]\<close>.\<close>

datatype outer_type = Plain py_type | Optional py_type

text \<open>Lines 23 to 42 of \<^verbatim>\<open>_db_type_to_py_type\<close>: the chain of membership tests.\<close>

definition py_type_of :: "string \<Rightarrow> error + py_type" where
  "py_type_of db_type =
     (if db_type \<in> set [''character varying'', ''text''] then Inr PyStr
      else if db_type \<in> set [''boolean''] then Inr PyBool
      else if db_type \<in> set [''smallint'', ''integer'', ''bigint''] then Inr PyInt
      else if db_type \<in> set [''real'', ''double precision''] then Inr PyFloat
      else if db_type \<in> set [''date''] then Inr PyDate
      else if db_type \<in> set [''time'', ''time with time zone'', ''time without time zone'']
        then Inr PyTime
      else if db_type \<in> set [''timestamp'', ''timestamp with time zone'',
                               ''timestamp without time zone'']
        then Inr PyDatetime
      else Inl (UnrecognizedType db_type))"

text \<open>
  \<^verbatim>\<open>_db_type_to_py_type\<close> (a leading underscore is not an Isabelle name): the pair
  \<^verbatim>\<open>(outer_type, value_type)\<close>, or the error of the lookup.
\<close>

definition db_type_to_py_type :: "string \<Rightarrow> bool \<Rightarrow> bool \<Rightarrow> error + (outer_type \<times> py_type)" where
  "db_type_to_py_type db_type is_nullable has_default =
     (case py_type_of db_type of
        Inl e \<Rightarrow> Inl e
      | Inr py_type \<Rightarrow>
          if is_nullable \<and> \<not> has_default then Inr (Optional py_type, py_type)
          else Inr (Plain py_type, py_type))"

text \<open>
  The recognized native type names of the specification: the names that the chain of
  tests above accepts, in one list (\<open>py_type_of_recognized\<close> and
  \<open>py_type_of_unrecognized\<close> below compare the two).
\<close>

definition recognized_types :: "string list" where
  "recognized_types =
     [''character varying'', ''text'', ''boolean'', ''smallint'', ''integer'', ''bigint'',
      ''real'', ''double precision'', ''date'', ''time'', ''time with time zone'',
      ''time without time zone'', ''timestamp'', ''timestamp with time zone'',
      ''timestamp without time zone'']"

text \<open>
  Modelled from the spec: \<^verbatim>\<open>is_optional_type\<close> of \<^verbatim>\<open>pylinsql.base\<close>, which is not among
  the source files; the specification describes a type descriptor as tagged nullable or
  not, and the module applies \<^verbatim>\<open>is_optional_type\<close> to the outer type of a column.
\<close>

fun is_optional_type :: "outer_type \<Rightarrow> bool" where
  "is_optional_type (Optional t) = True"
| "is_optional_type (Plain t) = False"

section \<open>The schema model\<close>

text \<open>
  \<^verbatim>\<open>Reference\<close>, \<^verbatim>\<open>ForeignKey\<close> and \<^verbatim>\<open>PrimaryKey\<close> come from \<^verbatim>\<open>pylinsql.schema\<close>; the
  records follow the way this module constructs them. A primary key holds one column
  name or a list of column names.
\<close>

record Reference =
  ref_table :: string
  ref_column :: string

record ForeignKey =
  fk_name :: string
  fk_references :: Reference

datatype key_column = Single string | Composite "string list"

record PrimaryKey =
  pk_name :: string
  pk_column :: key_column

text \<open>
  The type \<open>'v\<close> is the type of converted default values (\<^verbatim>\<open>Any\<close> in the source).
  A Python \<^verbatim>\<open>dict\<close> keeps insertion order, so \<open>columns\<close> and \<open>tables\<close> are association
  lists; \<open>dict_set\<close> is the assignment \<^verbatim>\<open>d[k] = v\<close>.
\<close>

record 'v ColumnSchema =
  name :: string
  data_type :: outer_type
  default :: "'v option"
  description :: "string option"
  references :: "ForeignKey option"

record 'v TableSchema =
  table_name :: string
  table_description :: "string option"
  columns :: "(string \<times> 'v ColumnSchema) list"
  primary_key :: "PrimaryKey option"

record 'v CatalogSchema =
  catalog_name :: string
  tables :: "(string \<times> 'v TableSchema) list"

fun dict_set :: "('k \<times> 'a) list \<Rightarrow> 'k \<Rightarrow> 'a \<Rightarrow> ('k \<times> 'a) list" where
  "dict_set [] k v = [(k, v)]"
| "dict_set ((k', v') # d) k v =
     (if k' = k then (k, v) # d else (k', v') # dict_set d k v)"

definition dict_values :: "('k \<times> 'a) list \<Rightarrow> 'a list" where
  "dict_values d = map snd d"

text \<open>\<^verbatim>\<open>CatalogSchema.__bool__\<close>: a catalog is truthy when it has a table.\<close>

definition catalog_bool :: "'v CatalogSchema \<Rightarrow> bool" where
  "catalog_bool catalog = (tables catalog \<noteq> [])"

section \<open>The database catalog\<close>

text \<open>
  The queries read views of \<^verbatim>\<open>information_schema\<close> and tables of \<^verbatim>\<open>pg_catalog\<close>.
  Each is a list of rows with the columns the queries use; \<open>current_catalog\<close> is the
  value of \<^verbatim>\<open>CURRENT_CATALOG\<close>. The identifying columns are never NULL in these views,
  so they are plain strings; a NULL appears only on the outer side of an outer join and
  in the columns declared with \<open>option\<close>.
\<close>

record tables_row =
  tab_catalog :: string
  tab_schema :: string
  tab_name :: string

record key_column_usage_row =
  kcu_constraint_catalog :: string
  kcu_constraint_schema :: string
  kcu_constraint_name :: string
  kcu_table_catalog :: string
  kcu_table_schema :: string
  kcu_table_name :: string
  kcu_column_name :: string

record referential_constraints_row =
  rc_constraint_catalog :: string
  rc_constraint_schema :: string
  rc_constraint_name :: string
  rc_unique_constraint_catalog :: string
  rc_unique_constraint_schema :: string
  rc_unique_constraint_name :: string

record table_constraints_row =
  tc_constraint_catalog :: string
  tc_constraint_schema :: string
  tc_constraint_name :: string
  tc_constraint_type :: string

record columns_row =
  col_table_catalog :: string
  col_table_schema :: string
  col_table_name :: string
  col_column_name :: string
  col_ordinal_position :: int
  col_is_nullable :: string
  col_data_type :: string
  col_column_default :: "string option"
  col_character_maximum_length :: "int option"
  col_is_identity :: string

record pg_class_row =
  cls_oid :: nat
  cls_relname :: string
  cls_relnamespace :: nat

record pg_namespace_row =
  ns_oid :: nat
  ns_nspname :: string

record pg_description_row =
  dsc_objoid :: nat
  dsc_objsubid :: int
  dsc_description :: string

record database =
  current_catalog :: string
  information_schema_tables :: "tables_row list"
  key_column_usage :: "key_column_usage_row list"
  referential_constraints :: "referential_constraints_row list"
  table_constraints :: "table_constraints_row list"
  information_schema_columns :: "columns_row list"
  pg_class :: "pg_class_row list"
  pg_namespace :: "pg_namespace_row list"
  pg_description :: "pg_description_row list"

section \<open>The dependency query\<close>

text \<open>
  The join that all three constraint queries share:
  \<^verbatim>\<open>referential_constraints AS ref_con INNER JOIN key_column_usage AS pkey ON ...
  INNER JOIN key_column_usage AS fkey ON ...\<close>. The primary-key side is joined on the
  unique constraint of the referential constraint, the foreign-key side on the
  constraint itself.
\<close>

definition ref_joins ::
  "database \<Rightarrow> (referential_constraints_row \<times> key_column_usage_row \<times> key_column_usage_row) list" where
  "ref_joins db =
     [(ref_con, pkey, fkey).
        ref_con \<leftarrow> referential_constraints db,
        pkey \<leftarrow> key_column_usage db,
        rc_unique_constraint_catalog ref_con = kcu_constraint_catalog pkey \<and>
        rc_unique_constraint_schema ref_con = kcu_constraint_schema pkey \<and>
        rc_unique_constraint_name ref_con = kcu_constraint_name pkey,
        fkey \<leftarrow> key_column_usage db,
        rc_constraint_catalog ref_con = kcu_constraint_catalog fkey \<and>
        rc_constraint_schema ref_con = kcu_constraint_schema fkey \<and>
        rc_constraint_name ref_con = kcu_constraint_name fkey]"

text \<open>A row of the recursive relation \<^verbatim>\<open>dependencies\<close>; the parent is NULL at depth 1.\<close>

type_synonym table_ref = "string \<times> string \<times> string"

record dependency =
  depth :: int
  parent :: "table_ref option"
  child :: table_ref

definition child_name :: "dependency \<Rightarrow> string" where
  "child_name d = snd (snd (child d))"

definition same_table :: "tables_row \<Rightarrow> key_column_usage_row \<Rightarrow> bool" where
  "same_table tab k =
     (tab_catalog tab = kcu_table_catalog k \<and>
      tab_schema tab = kcu_table_schema k \<and>
      tab_name tab = kcu_table_name k)"

text \<open>
  The non-recursive term. \<^verbatim>\<open>RIGHT JOIN information_schema.tables AS tab\<close> keeps every
  table: a table that no foreign-key row joins gets one row whose left side is NULL,
  and the \<^verbatim>\<open>WHERE\<close> clause keeps exactly those rows (\<^verbatim>\<open>pkey.table_name IS NULL\<close>).
\<close>

definition right_join_tables ::
  "database \<Rightarrow>
   ((referential_constraints_row \<times> key_column_usage_row \<times> key_column_usage_row) option \<times> tables_row) list" where
  "right_join_tables db =
     concat (map (\<lambda>tab.
       (let matches = [j. j \<leftarrow> ref_joins db, same_table tab (snd (snd j))]
        in if matches = [] then [(None, tab)] else map (\<lambda>j. (Some j, tab)) matches))
       (information_schema_tables db))"

definition base_dependencies :: "database \<Rightarrow> string \<Rightarrow> dependency list" where
  "base_dependencies db db_schema =
     [\<lparr>depth = 1, parent = None, child = (tab_catalog tab, tab_schema tab, tab_name tab)\<rparr>.
        (j, tab) \<leftarrow> right_join_tables db,
        tab_catalog tab = current_catalog db \<and> tab_schema tab = db_schema \<and> j = None]"

text \<open>
  The recursive term, evaluated on the working table \<open>dep\<close>: one row for every
  foreign-key row whose primary-key side is the child of a row of the working table.
  \<open>recursive_rows\<close> are the rows with \<^verbatim>\<open>dep.depth + 1\<close> as a mathematical integer.
\<close>

definition recursive_rows :: "database \<Rightarrow> string \<Rightarrow> dependency list \<Rightarrow> dependency list" where
  "recursive_rows db db_schema working =
     [\<lparr>depth = depth dep + 1, parent = Some (child dep),
       child = (tab_catalog tab, tab_schema tab, tab_name tab)\<rparr>.
        (ref_con, pkey, fkey) \<leftarrow> ref_joins db,
        tab \<leftarrow> information_schema_tables db,
        same_table tab fkey,
        dep \<leftarrow> working,
        child dep = (kcu_table_catalog pkey, kcu_table_schema pkey, kcu_table_name pkey),
        tab_catalog tab = current_catalog db \<and> tab_schema tab = db_schema]"

text \<open>
  The column \<^verbatim>\<open>depth\<close> is a four-byte integer (the type of the literal \<^verbatim>\<open>1\<close>), and
  PostgreSQL does not wrap around: the sum \<^verbatim>\<open>dep.depth + 1\<close> above 2147483647 makes
  the query fail with the error "integer out of range".
\<close>

definition recursive_dependencies ::
  "database \<Rightarrow> string \<Rightarrow> dependency list \<Rightarrow> error + dependency list" where
  "recursive_dependencies db db_schema working =
     (let rows = recursive_rows db db_schema working
      in if list_ex (\<lambda>d. depth d > 2147483647) rows
         then Inl (QueryError ''integer out of range'')
         else Inr rows)"

text \<open>
  Every row of the recursive term is one deeper than a row of the working table, so the
  smallest depth of the working table grows from round to round and cannot pass the
  largest four-byte integer: \<open>rounds_left\<close> bounds the rounds still to come.
\<close>

definition rounds_left :: "dependency list \<Rightarrow> nat" where
  "rounds_left working =
     (if working = [] then 0 else Suc (nat (2147483648 - Min (depth ` set working))))"

text \<open>
  \<^verbatim>\<open>WITH RECURSIVE ... UNION ALL\<close>: the rows of the working table are added to the
  result, the recursive term is evaluated on the working table alone, and its rows
  become the next working table; the evaluation ends when the working table is empty or
  the recursive term fails. It always ends, by the bound above.
\<close>

function dependencies_from ::
  "database \<Rightarrow> string \<Rightarrow> dependency list \<Rightarrow> dependency list \<Rightarrow> error + dependency list" where
  "dependencies_from db db_schema result working =
     (if working = [] then Inr result
      else
        (case recursive_dependencies db db_schema working of
           Inl e \<Rightarrow> Inl e
         | Inr next_working \<Rightarrow>
             dependencies_from db db_schema (result @ working) next_working))"
  by pat_completeness auto
termination
proof (relation "measure (\<lambda>(db, db_schema, result, working). rounds_left working)")
  show "wf (measure (\<lambda>(db :: database, db_schema :: string, result :: dependency list, working).
              rounds_left working))"
    by simp
next
  fix db :: database and db_schema :: string
    and result working next_working :: "dependency list"
  assume nonempty: "working \<noteq> []"
    and next_working: "recursive_dependencies db db_schema working = Inr next_working"
  have "rounds_left next_working < rounds_left working"
  proof (cases "next_working = []")
    case True
    with nonempty show ?thesis by (simp add: rounds_left_def)
  next
    case False
    let ?m = "Min (depth ` set working)" and ?m' = "Min (depth ` set next_working)"
    from next_working have rows: "next_working = recursive_rows db db_schema working"
      and bound: "\<not> list_ex (\<lambda>d. depth d > 2147483647) next_working"
      by (auto simp: recursive_dependencies_def Let_def split: if_splits)
    from False have "?m' \<in> depth ` set next_working" by (intro Min_in) auto
    then obtain d' where d': "d' \<in> set next_working" "depth d' = ?m'" by auto
    from d'(1) bound have le: "depth d' \<le> 2147483647"
      by (auto simp: list_ex_iff)
    from d'(1) rows obtain d where d: "d \<in> set working" "depth d' = depth d + 1"
      unfolding recursive_rows_def by (auto split: if_splits)
    from d(1) have "?m \<le> depth d" by (intro Min_le) auto
    with d d' le have "?m < ?m'" "?m' \<le> 2147483647" by auto
    then have "nat (2147483648 - ?m') < nat (2147483648 - ?m)" by linarith
    moreover have "rounds_left next_working = Suc (nat (2147483648 - ?m'))"
      using False by (simp only: rounds_left_def if_False)
    moreover have "rounds_left working = Suc (nat (2147483648 - ?m))"
      using nonempty by (simp only: rounds_left_def if_False)
    ultimately show ?thesis by linarith
  qed
  then show "((db, db_schema, result @ working, next_working), db, db_schema, result, working)
      \<in> measure (\<lambda>(db, db_schema, result, working). rounds_left working)"
    by simp
qed

declare dependencies_from.simps [simp del]

definition dependencies :: "database \<Rightarrow> string \<Rightarrow> error + dependency list" where
  "dependencies db db_schema = dependencies_from db db_schema [] (base_dependencies db db_schema)"

text \<open>
  \<^verbatim>\<open>SELECT child_name FROM dependencies GROUP BY child_name ORDER BY MIN(depth), child_name\<close>.
  One group per child name; the sort key is a pair, compared first by the smallest depth
  of the group and then by the name, so no two groups have the same key. Names are
  compared character by character; the collation of the database is not modelled.
\<close>

definition min_depth :: "dependency list \<Rightarrow> string \<Rightarrow> int" where
  "min_depth rows n = Min (set (map depth (filter (\<lambda>d. child_name d = n) rows)))"

definition ordered_names :: "dependency list \<Rightarrow> string list" where
  "ordered_names rows =
     sort_key (\<lambda>n. (min_depth rows n, n)) (remdups (map child_name rows))"

text \<open>The table names that \<^verbatim>\<open>typed_fetch_column\<close> returns for the dependency query.\<close>

definition table_names :: "database \<Rightarrow> string \<Rightarrow> error + string list" where
  "table_names db db_schema =
     (case dependencies db db_schema of
        Inl e \<Rightarrow> Inl e
      | Inr rows \<Rightarrow> Inr (ordered_names rows))"

section \<open>The table schema loader\<close>

text \<open>
  The join of \<^verbatim>\<open>pg_class\<close>, \<^verbatim>\<open>pg_namespace\<close> and \<^verbatim>\<open>pg_description\<close> that both description
  queries use, restricted to one table: the pairs \<^verbatim>\<open>(objsubid, description)\<close>.
\<close>

definition description_rows :: "database \<Rightarrow> string \<Rightarrow> string \<Rightarrow> (int \<times> string) list" where
  "description_rows db db_schema db_table =
     [(dsc_objsubid dsc, dsc_description dsc).
        cls \<leftarrow> pg_class db,
        ns \<leftarrow> pg_namespace db,
        cls_relnamespace cls = ns_oid ns,
        dsc \<leftarrow> pg_description db,
        cls_oid cls = dsc_objoid dsc,
        ns_nspname ns = db_schema \<and> cls_relname cls = db_table]"

text \<open>
  Modelled from the spec: \<^verbatim>\<open>typed_fetch_value\<close> of \<^verbatim>\<open>pylinsql.async_database\<close>, which is
  not among the source files. The specification makes the table description optional
  (its absence is not an error), so the value of the first row is returned and \<open>None\<close>
  when there is no row.
\<close>

definition typed_fetch_value :: "'a list \<Rightarrow> 'a option" where
  "typed_fetch_value rows = (case rows of [] \<Rightarrow> None | v # _ \<Rightarrow> Some v)"

definition table_description_query :: "database \<Rightarrow> string \<Rightarrow> string \<Rightarrow> string list" where
  "table_description_query db db_schema db_table =
     [d. (objsubid, d) \<leftarrow> description_rows db db_schema db_table, objsubid = 0]"

text \<open>A row of the column query; the two \<^verbatim>\<open>CASE\<close> expressions give TRUE, FALSE or NULL.\<close>

record column_record =
  rec_column_name :: string
  rec_is_nullable :: "bool option"
  rec_data_type :: string
  rec_column_default :: "string option"
  rec_character_maximum_length :: "int option"
  rec_is_identity :: "bool option"
  rec_description :: "string option"

definition yes_no :: "string \<Rightarrow> bool option" where
  "yes_no v = (if v = ''YES'' then Some True else if v = ''NO'' then Some False else None)"

text \<open>
  \<^verbatim>\<open>information_schema.columns cols LEFT JOIN column_description ON
  cols.ordinal_position = objsubid\<close>, filtered to the table and ordered by ordinal
  position (a stable sort of the rows in the order the join lists them).
\<close>

definition column_query :: "database \<Rightarrow> string \<Rightarrow> string \<Rightarrow> column_record list" where
  "column_query db db_schema db_table =
     map snd (sort_key fst
       (concat (map (\<lambda>cols.
          (let mk = (\<lambda>d. (col_ordinal_position cols,
                 \<lparr>rec_column_name = col_column_name cols,
                  rec_is_nullable = yes_no (col_is_nullable cols),
                  rec_data_type = col_data_type cols,
                  rec_column_default = col_column_default cols,
                  rec_character_maximum_length = col_character_maximum_length cols,
                  rec_is_identity = yes_no (col_is_identity cols),
                  rec_description = d\<rparr>));
               matches = [d. (objsubid, d) \<leftarrow> description_rows db db_schema db_table,
                             col_ordinal_position cols = objsubid]
           in if matches = [] then [mk None] else map (\<lambda>d. mk (Some d)) matches))
          [cols. cols \<leftarrow> information_schema_columns db,
                 col_table_catalog cols = current_catalog db \<and>
                 col_table_schema cols = db_schema \<and> col_table_name cols = db_table])))"

text \<open>
  Modelled from the spec: \<^verbatim>\<open>cast_if_not_none\<close> of \<^verbatim>\<open>pylinsql.base\<close>, which is not among
  the source files. The specification parses each non-null default literal into the
  resolved primitive type and leaves an absent default absent. The conversion itself
  (the call of the Python type on the literal, which can raise) is the parameter
  \<open>cast\<close>.
\<close>

definition cast_if_not_none ::
  "(py_type \<Rightarrow> string \<Rightarrow> error + 'v) \<Rightarrow> py_type \<Rightarrow> string option \<Rightarrow> error + 'v option" where
  "cast_if_not_none cast typ v =
     (case v of
        None \<Rightarrow> Inr None
      | Some s \<Rightarrow> (case cast typ s of Inl e \<Rightarrow> Inl e | Inr x \<Rightarrow> Inr (Some x)))"

text \<open>Python's truth value of \<^verbatim>\<open>column["is_nullable"]\<close>, which is True, False or None.\<close>

definition truthy :: "bool option \<Rightarrow> bool" where
  "truthy b = (b = Some True)"

text \<open>The body of the loop over the column rows (lines 259 to 272).\<close>

definition column_schema_of ::
  "(py_type \<Rightarrow> string \<Rightarrow> error + 'v) \<Rightarrow> column_record \<Rightarrow> error + 'v ColumnSchema" where
  "column_schema_of cast column =
     (case db_type_to_py_type (rec_data_type column) (truthy (rec_is_nullable column))
             (rec_column_default column \<noteq> None) of
        Inl e \<Rightarrow> Inl e
      | Inr (outer_type, value_type) \<Rightarrow>
          (case cast_if_not_none cast value_type (rec_column_default column) of
             Inl e \<Rightarrow> Inl e
           | Inr d \<Rightarrow>
               Inr \<lparr>name = rec_column_name column, data_type = outer_type, default = d,
                    description = rec_description column, references = None\<rparr>))"

fun column_schemas_loop ::
  "(py_type \<Rightarrow> string \<Rightarrow> error + 'v) \<Rightarrow> column_record list \<Rightarrow>
   (string \<times> 'v ColumnSchema) list \<Rightarrow> error + (string \<times> 'v ColumnSchema) list" where
  "column_schemas_loop cast [] column_schemas = Inr column_schemas"
| "column_schemas_loop cast (column # rest) column_schemas =
     (case column_schema_of cast column of
        Inl e \<Rightarrow> Inl e
      | Inr column_schema \<Rightarrow>
          column_schemas_loop cast rest
            (dict_set column_schemas (name column_schema) column_schema))"

section \<open>The constraint resolver\<close>

record UniqueConstraint =
  key_name :: string
  key_schema :: string
  key_table :: string
  key_column :: string

record ReferenceConstraint =
  foreign_key_name :: string
  foreign_key_schema :: string
  foreign_key_table :: string
  foreign_key_column :: string
  primary_key_schema :: string
  primary_key_table :: string
  primary_key_column :: string

text \<open>
  The query of \<^verbatim>\<open>_set_unique_keys\<close>. The rows come in the order of the join; the query
  has no \<^verbatim>\<open>ORDER BY\<close>.
\<close>

definition unique_key_query :: "database \<Rightarrow> string \<Rightarrow> string \<Rightarrow> UniqueConstraint list" where
  "unique_key_query db db_schema db_table =
     [\<lparr>key_name = kcu_constraint_name ukey, key_schema = kcu_table_schema ukey,
       key_table = kcu_table_name ukey, key_column = kcu_column_name ukey\<rparr>.
        tab_con \<leftarrow> table_constraints db,
        ukey \<leftarrow> key_column_usage db,
        tc_constraint_catalog tab_con = kcu_constraint_catalog ukey \<and>
        tc_constraint_schema tab_con = kcu_constraint_schema ukey \<and>
        tc_constraint_name tab_con = kcu_constraint_name ukey,
        kcu_table_catalog ukey = current_catalog db \<and>
        kcu_table_schema ukey = db_schema \<and>
        kcu_table_name ukey = db_table \<and>
        tc_constraint_type tab_con = ''PRIMARY KEY'']"

definition set_unique_keys :: "database \<Rightarrow> string \<Rightarrow> 'v TableSchema \<Rightarrow> 'v TableSchema" where
  "set_unique_keys db db_schema table_schema =
     (let constraints = unique_key_query db db_schema (table_name table_schema)
      in if length constraints > 1 then
           table_schema\<lparr>primary_key :=
             Some \<lparr>pk_name = key_name (constraints ! 0),
                   pk_column = Composite (map key_column constraints)\<rparr>\<rparr>
         else if length constraints > 0 then
           table_schema\<lparr>primary_key :=
             Some \<lparr>pk_name = key_name (constraints ! 0),
                   pk_column = Single (key_column (constraints ! 0))\<rparr>\<rparr>
         else table_schema\<lparr>primary_key := None\<rparr>)"

text \<open>
  The query of \<^verbatim>\<open>_set_foreign_keys\<close>; \<^verbatim>\<open>typed_fetch\<close> fills the fields of
  \<^verbatim>\<open>_ReferenceConstraint\<close> from the columns of the same names (the query also selects
  \<^verbatim>\<open>primary_key_name\<close>, for which the class has no field).
\<close>

definition foreign_key_query :: "database \<Rightarrow> string \<Rightarrow> string \<Rightarrow> ReferenceConstraint list" where
  "foreign_key_query db db_schema db_table =
     [\<lparr>foreign_key_name = kcu_constraint_name fkey,
       foreign_key_schema = kcu_table_schema fkey,
       foreign_key_table = kcu_table_name fkey,
       foreign_key_column = kcu_column_name fkey,
       primary_key_schema = kcu_table_schema pkey,
       primary_key_table = kcu_table_name pkey,
       primary_key_column = kcu_column_name pkey\<rparr>.
        (ref_con, pkey, fkey) \<leftarrow> ref_joins db,
        kcu_table_catalog fkey = current_catalog db \<and>
        kcu_table_schema fkey = db_schema \<and>
        kcu_table_name fkey = db_table]"

text \<open>
  The loop of \<^verbatim>\<open>_set_foreign_keys\<close> over the fetched rows. The source mutates the column
  objects of the table; here the column dictionary is passed along and returned.
  \<^verbatim>\<open>table_schema.columns[...]\<close> raises \<^verbatim>\<open>KeyError\<close> for a column the table does not have.
\<close>

fun foreign_keys_loop ::
  "ReferenceConstraint list \<Rightarrow> (string \<times> 'v ColumnSchema) list \<Rightarrow>
   error + (string \<times> 'v ColumnSchema) list" where
  "foreign_keys_loop [] cols = Inr cols"
| "foreign_keys_loop (constraint # rest) cols =
     (if foreign_key_schema constraint \<noteq> primary_key_schema constraint then
        Inl (CrossSchemaReference (foreign_key_schema constraint) (primary_key_schema constraint))
      else
        (case map_of cols (foreign_key_column constraint) of
           None \<Rightarrow> Inl (KeyError (foreign_key_column constraint))
         | Some column \<Rightarrow>
             if references column \<noteq> None then Inl (DuplicateForeignKey (name column))
             else
               foreign_keys_loop rest
                 (dict_set cols (foreign_key_column constraint)
                    (column\<lparr>references :=
                       Some \<lparr>fk_name = foreign_key_name constraint,
                             fk_references =
                               \<lparr>ref_table = primary_key_table constraint,
                                ref_column = primary_key_column constraint\<rparr>\<rparr>\<rparr>))))"

definition set_foreign_keys :: "database \<Rightarrow> string \<Rightarrow> 'v TableSchema \<Rightarrow> error + 'v TableSchema" where
  "set_foreign_keys db db_schema table_schema =
     (case foreign_keys_loop (foreign_key_query db db_schema (table_name table_schema))
             (columns table_schema) of
        Inl e \<Rightarrow> Inl e
      | Inr cols \<Rightarrow> Inr (table_schema\<lparr>columns := cols\<rparr>))"

text \<open>\<^verbatim>\<open>_get_table_schema\<close>: the columns, then the foreign keys, then the primary key.\<close>

definition get_table_schema ::
  "(py_type \<Rightarrow> string \<Rightarrow> error + 'v) \<Rightarrow> database \<Rightarrow> string \<Rightarrow> string \<Rightarrow> error + 'v TableSchema" where
  "get_table_schema cast db db_schema db_table =
     (let description = typed_fetch_value (table_description_query db db_schema db_table)
      in case column_schemas_loop cast (column_query db db_schema db_table) [] of
           Inl e \<Rightarrow> Inl e
         | Inr column_schemas \<Rightarrow>
             (case set_foreign_keys db db_schema
                     \<lparr>table_name = db_table, table_description = description,
                      columns = column_schemas, primary_key = None\<rparr> of
                Inl e \<Rightarrow> Inl e
              | Inr table_schema \<Rightarrow> Inr (set_unique_keys db db_schema table_schema)))"

section \<open>The catalog schema builder\<close>

fun table_schemas_loop ::
  "(py_type \<Rightarrow> string \<Rightarrow> error + 'v) \<Rightarrow> database \<Rightarrow> string \<Rightarrow> string list \<Rightarrow>
   error + 'v TableSchema list" where
  "table_schemas_loop cast db db_schema [] = Inr []"
| "table_schemas_loop cast db db_schema (t # rest) =
     (case get_table_schema cast db db_schema t of
        Inl e \<Rightarrow> Inl e
      | Inr table_schema \<Rightarrow>
          (case table_schemas_loop cast db db_schema rest of
             Inl e \<Rightarrow> Inl e
           | Inr table_schemas \<Rightarrow> Inr (table_schema # table_schemas)))"

text \<open>\<^verbatim>\<open>dict(pairs)\<close>: the pairs are assigned one after the other.\<close>

definition dict_of :: "('k \<times> 'a) list \<Rightarrow> ('k \<times> 'a) list" where
  "dict_of pairs = foldl (\<lambda>d (k, v). dict_set d k v) [] pairs"

text \<open>
  \<^verbatim>\<open>get_catalog_schema\<close>: the error of the dependency query, the first error of a
  table, or the catalog.
\<close>

definition get_catalog_schema ::
  "(py_type \<Rightarrow> string \<Rightarrow> error + 'v) \<Rightarrow> database \<Rightarrow> string \<Rightarrow> error + 'v CatalogSchema" where
  "get_catalog_schema cast db db_schema =
     (case table_names db db_schema of
        Inl e \<Rightarrow> Inl e
      | Inr names \<Rightarrow>
          (case table_schemas_loop cast db db_schema names of
             Inl e \<Rightarrow> Inl e
           | Inr table_schemas \<Rightarrow>
               Inr \<lparr>catalog_name = db_schema,
                    tables = dict_of (map (\<lambda>table. (table_name table, table)) table_schemas)\<rparr>))"

section \<open>Data classes\<close>

text \<open>
  The default of a field is \<^verbatim>\<open>MISSING\<close> or a value, which may be Python's \<^verbatim>\<open>None\<close>
  (\<open>Default None\<close>). The metadata dictionary has at most the keys \<^verbatim>\<open>description\<close> and
  \<^verbatim>\<open>foreign_key\<close>.
\<close>

datatype 'v field_default = MISSING | Default "'v option"

record 'v Field =
  field_name :: string
  field_type :: outer_type
  field_default :: "'v field_default"
  metadata_description :: "string option"
  metadata_foreign_key :: "ForeignKey option"

record 'v DataClass =
  class_name :: string
  class_fields :: "'v Field list"
  class_doc :: "string option"
  class_primary_key :: "PrimaryKey option"

text \<open>\<open>iskeyword\<close> is \<^verbatim>\<open>keyword.iskeyword\<close> of the Python standard library.\<close>

definition column_to_field :: "(string \<Rightarrow> bool) \<Rightarrow> 'v ColumnSchema \<Rightarrow> 'v Field" where
  "column_to_field iskeyword column =
     \<lparr>field_name = (if iskeyword (name column) then name column @ ''_'' else name column),
      field_type = data_type column,
      field_default =
        (if default column \<noteq> None then Default (default column)
         else if is_optional_type (data_type column) then Default None
         else MISSING),
      metadata_description = description column,
      metadata_foreign_key = references column\<rparr>"

text \<open>
  \<^verbatim>\<open>table_to_dataclass\<close>. \<^verbatim>\<open>list.sort\<close> is stable and its key is a Boolean, False before
  True. \<^verbatim>\<open>dataclasses.make_dataclass\<close> belongs to the standard library: it keeps the
  fields in the order given, and \<open>rejects\<close> is the exception it raises for a class
  name and a field list, if any (a field name that is not an identifier or occurs
  twice).
\<close>

definition table_to_dataclass ::
  "(string \<Rightarrow> bool) \<Rightarrow> (string \<Rightarrow> 'v Field list \<Rightarrow> error option) \<Rightarrow> 'v TableSchema \<Rightarrow>
   error + 'v DataClass" where
  "table_to_dataclass iskeyword rejects table =
     (let fields = map (column_to_field iskeyword) (dict_values (columns table));
          cls_name = (if iskeyword (table_name table) then table_name table @ ''_''
                      else table_name table);
          fields = sort_key (\<lambda>f. field_default f \<noteq> MISSING) fields
      in case rejects cls_name fields of
           Some e \<Rightarrow> Inl e
         | None \<Rightarrow>
             Inr \<lparr>class_name = cls_name, class_fields = fields,
                  class_doc = table_description table,
                  class_primary_key = primary_key table\<rparr>)"

fun catalog_to_dataclasses_loop ::
  "(string \<Rightarrow> bool) \<Rightarrow> (string \<Rightarrow> 'v Field list \<Rightarrow> error option) \<Rightarrow> 'v TableSchema list \<Rightarrow>
   error + 'v DataClass list" where
  "catalog_to_dataclasses_loop iskeyword rejects [] = Inr []"
| "catalog_to_dataclasses_loop iskeyword rejects (table # rest) =
     (case table_to_dataclass iskeyword rejects table of
        Inl e \<Rightarrow> Inl e
      | Inr typ \<Rightarrow>
          (case catalog_to_dataclasses_loop iskeyword rejects rest of
             Inl e \<Rightarrow> Inl e
           | Inr types \<Rightarrow> Inr (typ # types)))"

definition catalog_to_dataclasses ::
  "(string \<Rightarrow> bool) \<Rightarrow> (string \<Rightarrow> 'v Field list \<Rightarrow> error option) \<Rightarrow> 'v CatalogSchema \<Rightarrow>
   error + 'v DataClass list" where
  "catalog_to_dataclasses iskeyword rejects catalog =
     catalog_to_dataclasses_loop iskeyword rejects (dict_values (tables catalog))"

text \<open>
  \<^verbatim>\<open>main\<close>, up to the list of types that it hands to \<^verbatim>\<open>dataclasses_to_code\<close>; the text
  of the generated file and its writing are not modelled.
\<close>

definition main ::
  "(py_type \<Rightarrow> string \<Rightarrow> error + 'v) \<Rightarrow> (string \<Rightarrow> bool) \<Rightarrow>
   (string \<Rightarrow> 'v Field list \<Rightarrow> error option) \<Rightarrow> database \<Rightarrow> string \<Rightarrow>
   error + 'v DataClass list" where
  "main cast iskeyword rejects db db_schema =
     (case get_catalog_schema cast db db_schema of
        Inl e \<Rightarrow> Inl e
      | Inr catalog \<Rightarrow>
          if \<not> catalog_bool catalog then Inl (EmptySchema db_schema)
          else catalog_to_dataclasses iskeyword rejects catalog)"

section \<open>Example catalogs\<close>

text \<open>
  Rows for small catalogs. Every constraint lives in the catalog and schema of its
  table; a referential constraint may point at a unique constraint of another schema.
\<close>

definition mk_table :: "string \<Rightarrow> string \<Rightarrow> tables_row" where
  "mk_table s t = \<lparr>tab_catalog = ''db'', tab_schema = s, tab_name = t\<rparr>"

definition mk_key :: "string \<Rightarrow> string \<Rightarrow> string \<Rightarrow> string \<Rightarrow> key_column_usage_row" where
  "mk_key s con t col =
     \<lparr>kcu_constraint_catalog = ''db'', kcu_constraint_schema = s, kcu_constraint_name = con,
      kcu_table_catalog = ''db'', kcu_table_schema = s, kcu_table_name = t,
      kcu_column_name = col\<rparr>"

definition mk_ref :: "string \<Rightarrow> string \<Rightarrow> string \<Rightarrow> string \<Rightarrow> referential_constraints_row" where
  "mk_ref s con us ucon =
     \<lparr>rc_constraint_catalog = ''db'', rc_constraint_schema = s, rc_constraint_name = con,
      rc_unique_constraint_catalog = ''db'', rc_unique_constraint_schema = us,
      rc_unique_constraint_name = ucon\<rparr>"

definition mk_primary :: "string \<Rightarrow> string \<Rightarrow> table_constraints_row" where
  "mk_primary s con =
     \<lparr>tc_constraint_catalog = ''db'', tc_constraint_schema = s, tc_constraint_name = con,
      tc_constraint_type = ''PRIMARY KEY''\<rparr>"

definition mk_column ::
  "string \<Rightarrow> string \<Rightarrow> string \<Rightarrow> int \<Rightarrow> string \<Rightarrow> string \<Rightarrow> string option \<Rightarrow> columns_row" where
  "mk_column s t col pos nullable typ dflt =
     \<lparr>col_table_catalog = ''db'', col_table_schema = s, col_table_name = t,
      col_column_name = col, col_ordinal_position = pos, col_is_nullable = nullable,
      col_data_type = typ, col_column_default = dflt,
      col_character_maximum_length = None, col_is_identity = ''NO''\<rparr>"

definition mk_database ::
  "tables_row list \<Rightarrow> key_column_usage_row list \<Rightarrow> referential_constraints_row list \<Rightarrow>
   table_constraints_row list \<Rightarrow> columns_row list \<Rightarrow> database" where
  "mk_database tabs keys refs cons cols =
     \<lparr>current_catalog = ''db'', information_schema_tables = tabs, key_column_usage = keys,
      referential_constraints = refs, table_constraints = cons,
      information_schema_columns = cols, pg_class = [], pg_namespace = [],
      pg_description = []\<rparr>"

text \<open>A conversion of default literals that keeps the literal as it is.\<close>

definition keep_literal :: "py_type \<Rightarrow> string \<Rightarrow> error + string" where
  "keep_literal typ s = Inr s"

definition db_empty :: database where
  "db_empty = mk_database [] [] [] [] []"

text \<open>A table with a column of a type that the mapper does not know.\<close>

definition db_uuid :: database where
  "db_uuid =
     mk_database [mk_table ''public'' ''users'']
       [mk_key ''public'' ''users_pkey'' ''users'' ''id'']
       []
       [mk_primary ''public'' ''users_pkey'']
       [mk_column ''public'' ''users'' ''id'' 1 ''NO'' ''integer'' None,
        mk_column ''public'' ''users'' ''token'' 2 ''YES'' ''uuid'' None]"

definition uuid_column :: column_record where
  "uuid_column =
     \<lparr>rec_column_name = ''token'', rec_is_nullable = Some True, rec_data_type = ''uuid'',
      rec_column_default = None, rec_character_maximum_length = None,
      rec_is_identity = Some False, rec_description = None\<rparr>"

text \<open>A table with a primary key of two columns.\<close>

definition db_order_lines :: database where
  "db_order_lines =
     mk_database [mk_table ''public'' ''order_lines'']
       [mk_key ''public'' ''order_lines_pkey'' ''order_lines'' ''order_id'',
        mk_key ''public'' ''order_lines_pkey'' ''order_lines'' ''line_no'']
       []
       [mk_primary ''public'' ''order_lines_pkey'']
       [mk_column ''public'' ''order_lines'' ''order_id'' 1 ''NO'' ''integer'' None,
        mk_column ''public'' ''order_lines'' ''line_no'' 2 ''NO'' ''integer'' None,
        mk_column ''public'' ''order_lines'' ''note'' 3 ''YES'' ''text'' None]"

text \<open>
  The primary key as the specification words it: no row, no key; one row, a key of one
  column; more rows, a composite key of the columns in row order, named by the first row.
\<close>

definition spec_primary_key :: "UniqueConstraint list \<Rightarrow> PrimaryKey option" where
  "spec_primary_key rows =
     (case rows of
        [] \<Rightarrow> None
      | [c] \<Rightarrow> Some \<lparr>pk_name = key_name c, pk_column = Single (key_column c)\<rparr>
      | c # c' # rest \<Rightarrow>
          Some \<lparr>pk_name = key_name c, pk_column = Composite (map key_column rows)\<rparr>)"

text \<open>A table schema whose first column has a default and whose third is nullable.\<close>

definition example_table :: "string TableSchema" where
  "example_table =
     \<lparr>table_name = ''t'', table_description = None,
      columns =
        [(''a'', \<lparr>name = ''a'', data_type = Plain PyStr, default = Some ''x'',
                  description = None, references = None\<rparr>),
         (''b'', \<lparr>name = ''b'', data_type = Plain PyInt, default = None,
                  description = None, references = None\<rparr>),
         (''c'', \<lparr>name = ''c'', data_type = Optional PyInt, default = None,
                  description = None, references = None\<rparr>),
         (''d'', \<lparr>name = ''d'', data_type = Plain PyBool, default = None,
                  description = None, references = None\<rparr>)],
      primary_key = None\<rparr>"

text \<open>
  Catalogs for the foreign-key pass. In the first, table \<open>t\<close> has a foreign key of two
  columns into table \<open>u\<close> of the same schema; in the second, the same key points into
  another schema; in the third, a key of two columns comes before a key into another
  schema; in the fourth, a key of one column comes before a key into another schema.
\<close>

definition db_composite_fk :: database where
  "db_composite_fk =
     mk_database [mk_table ''public'' ''u'', mk_table ''public'' ''t'']
       [mk_key ''public'' ''u_pkey'' ''u'' ''x'',
        mk_key ''public'' ''u_pkey'' ''u'' ''y'',
        mk_key ''public'' ''t_fkey'' ''t'' ''a'',
        mk_key ''public'' ''t_fkey'' ''t'' ''b'']
       [mk_ref ''public'' ''t_fkey'' ''public'' ''u_pkey'']
       [mk_primary ''public'' ''u_pkey'']
       [mk_column ''public'' ''u'' ''x'' 1 ''NO'' ''integer'' None,
        mk_column ''public'' ''u'' ''y'' 2 ''NO'' ''integer'' None,
        mk_column ''public'' ''t'' ''a'' 1 ''NO'' ''integer'' None,
        mk_column ''public'' ''t'' ''b'' 2 ''NO'' ''integer'' None]"

definition db_cross_composite :: database where
  "db_cross_composite =
     mk_database [mk_table ''other'' ''u'', mk_table ''public'' ''t'']
       [mk_key ''other'' ''u_pkey'' ''u'' ''x'',
        mk_key ''other'' ''u_pkey'' ''u'' ''y'',
        mk_key ''public'' ''t_fkey'' ''t'' ''a'',
        mk_key ''public'' ''t_fkey'' ''t'' ''b'']
       [mk_ref ''public'' ''t_fkey'' ''other'' ''u_pkey'']
       [mk_primary ''other'' ''u_pkey'']
       [mk_column ''other'' ''u'' ''x'' 1 ''NO'' ''integer'' None,
        mk_column ''other'' ''u'' ''y'' 2 ''NO'' ''integer'' None,
        mk_column ''public'' ''t'' ''a'' 1 ''NO'' ''integer'' None,
        mk_column ''public'' ''t'' ''b'' 2 ''NO'' ''integer'' None]"

definition db_cross_after_duplicate :: database where
  "db_cross_after_duplicate =
     mk_database [mk_table ''public'' ''u'', mk_table ''other'' ''v'', mk_table ''public'' ''t'']
       [mk_key ''public'' ''u_pkey'' ''u'' ''x'',
        mk_key ''public'' ''u_pkey'' ''u'' ''y'',
        mk_key ''other'' ''v_pkey'' ''v'' ''id'',
        mk_key ''public'' ''t_ab_fkey'' ''t'' ''a'',
        mk_key ''public'' ''t_ab_fkey'' ''t'' ''b'',
        mk_key ''public'' ''t_c_fkey'' ''t'' ''c'']
       [mk_ref ''public'' ''t_ab_fkey'' ''public'' ''u_pkey'',
        mk_ref ''public'' ''t_c_fkey'' ''other'' ''v_pkey'']
       [mk_primary ''public'' ''u_pkey'', mk_primary ''other'' ''v_pkey'']
       [mk_column ''public'' ''u'' ''x'' 1 ''NO'' ''integer'' None,
        mk_column ''public'' ''u'' ''y'' 2 ''NO'' ''integer'' None,
        mk_column ''other'' ''v'' ''id'' 1 ''NO'' ''integer'' None,
        mk_column ''public'' ''t'' ''a'' 1 ''NO'' ''integer'' None,
        mk_column ''public'' ''t'' ''b'' 2 ''NO'' ''integer'' None,
        mk_column ''public'' ''t'' ''c'' 3 ''NO'' ''integer'' None]"

definition db_cross_schema :: database where
  "db_cross_schema =
     mk_database [mk_table ''public'' ''u'', mk_table ''other'' ''v'', mk_table ''public'' ''t'']
       [mk_key ''public'' ''u_pkey'' ''u'' ''id'',
        mk_key ''other'' ''v_pkey'' ''v'' ''id'',
        mk_key ''public'' ''t_a_fkey'' ''t'' ''a'',
        mk_key ''public'' ''t_c_fkey'' ''t'' ''c'']
       [mk_ref ''public'' ''t_a_fkey'' ''public'' ''u_pkey'',
        mk_ref ''public'' ''t_c_fkey'' ''other'' ''v_pkey'']
       [mk_primary ''public'' ''u_pkey'', mk_primary ''other'' ''v_pkey'']
       [mk_column ''public'' ''u'' ''id'' 1 ''NO'' ''integer'' None,
        mk_column ''other'' ''v'' ''id'' 1 ''NO'' ''integer'' None,
        mk_column ''public'' ''t'' ''a'' 1 ''NO'' ''integer'' None,
        mk_column ''public'' ''t'' ''c'' 2 ''NO'' ''integer'' None]"

text \<open>Table schemas for \<open>t\<close> as the column loop builds them, before any key is attached.\<close>

definition plain_column :: "string \<Rightarrow> string ColumnSchema" where
  "plain_column n =
     \<lparr>name = n, data_type = Plain PyInt, default = None, description = None,
      references = None\<rparr>"

definition table_t :: "string list \<Rightarrow> string TableSchema" where
  "table_t names =
     \<lparr>table_name = ''t'', table_description = None,
      columns = map (\<lambda>n. (n, plain_column n)) names, primary_key = None\<rparr>"

text \<open>The two rows of the foreign-key query for \<open>t\<close> in the fourth catalog.\<close>

definition row_t_a :: ReferenceConstraint where
  "row_t_a =
     \<lparr>foreign_key_name = ''t_a_fkey'', foreign_key_schema = ''public'',
      foreign_key_table = ''t'', foreign_key_column = ''a'',
      primary_key_schema = ''public'', primary_key_table = ''u'',
      primary_key_column = ''id''\<rparr>"

definition row_t_c :: ReferenceConstraint where
  "row_t_c =
     \<lparr>foreign_key_name = ''t_c_fkey'', foreign_key_schema = ''public'',
      foreign_key_table = ''t'', foreign_key_column = ''c'',
      primary_key_schema = ''other'', primary_key_table = ''v'',
      primary_key_column = ''id''\<rparr>"

text \<open>
  Catalogs for the dependency query. In the first, \<open>m\<close> references \<open>a\<close> and \<open>z\<close>, and
  \<open>z\<close> references \<open>a\<close>. In the second, \<open>C\<close> references \<open>B\<close> and \<open>A\<close>, and \<open>B\<close>
  references \<open>A\<close>. In the third, \<open>employees\<close> references \<open>departments\<close> and, through the
  manager column, itself.
\<close>

definition db_amz :: database where
  "db_amz =
     mk_database
       [mk_table ''public'' ''a'', mk_table ''public'' ''m'', mk_table ''public'' ''z'']
       [mk_key ''public'' ''a_pkey'' ''a'' ''id'',
        mk_key ''public'' ''m_pkey'' ''m'' ''id'',
        mk_key ''public'' ''z_pkey'' ''z'' ''id'',
        mk_key ''public'' ''m_a_fkey'' ''m'' ''a_id'',
        mk_key ''public'' ''m_z_fkey'' ''m'' ''z_id'',
        mk_key ''public'' ''z_a_fkey'' ''z'' ''a_id'']
       [mk_ref ''public'' ''m_a_fkey'' ''public'' ''a_pkey'',
        mk_ref ''public'' ''m_z_fkey'' ''public'' ''z_pkey'',
        mk_ref ''public'' ''z_a_fkey'' ''public'' ''a_pkey'']
       [mk_primary ''public'' ''a_pkey'', mk_primary ''public'' ''m_pkey'',
        mk_primary ''public'' ''z_pkey'']
       [mk_column ''public'' ''a'' ''id'' 1 ''NO'' ''integer'' None,
        mk_column ''public'' ''m'' ''id'' 1 ''NO'' ''integer'' None,
        mk_column ''public'' ''m'' ''a_id'' 2 ''NO'' ''integer'' None,
        mk_column ''public'' ''m'' ''z_id'' 3 ''NO'' ''integer'' None,
        mk_column ''public'' ''z'' ''id'' 1 ''NO'' ''integer'' None,
        mk_column ''public'' ''z'' ''a_id'' 2 ''NO'' ''integer'' None]"

definition db_abc :: database where
  "db_abc =
     mk_database
       [mk_table ''public'' ''A'', mk_table ''public'' ''B'', mk_table ''public'' ''C'']
       [mk_key ''public'' ''A_pkey'' ''A'' ''id'',
        mk_key ''public'' ''B_pkey'' ''B'' ''id'',
        mk_key ''public'' ''C_pkey'' ''C'' ''id'',
        mk_key ''public'' ''B_a_fkey'' ''B'' ''a_id'',
        mk_key ''public'' ''C_b_fkey'' ''C'' ''b_id'',
        mk_key ''public'' ''C_a_fkey'' ''C'' ''a_id'']
       [mk_ref ''public'' ''B_a_fkey'' ''public'' ''A_pkey'',
        mk_ref ''public'' ''C_b_fkey'' ''public'' ''B_pkey'',
        mk_ref ''public'' ''C_a_fkey'' ''public'' ''A_pkey'']
       [mk_primary ''public'' ''A_pkey'', mk_primary ''public'' ''B_pkey'',
        mk_primary ''public'' ''C_pkey'']
       [mk_column ''public'' ''A'' ''id'' 1 ''NO'' ''integer'' None,
        mk_column ''public'' ''B'' ''id'' 1 ''NO'' ''integer'' None,
        mk_column ''public'' ''B'' ''a_id'' 2 ''NO'' ''integer'' None,
        mk_column ''public'' ''C'' ''id'' 1 ''NO'' ''integer'' None,
        mk_column ''public'' ''C'' ''b_id'' 2 ''NO'' ''integer'' None,
        mk_column ''public'' ''C'' ''a_id'' 3 ''NO'' ''integer'' None]"

definition db_employees :: database where
  "db_employees =
     mk_database
       [mk_table ''public'' ''departments'', mk_table ''public'' ''employees'']
       [mk_key ''public'' ''departments_pkey'' ''departments'' ''id'',
        mk_key ''public'' ''employees_pkey'' ''employees'' ''id'',
        mk_key ''public'' ''employees_department_fkey'' ''employees'' ''department_id'',
        mk_key ''public'' ''employees_manager_fkey'' ''employees'' ''manager_id'']
       [mk_ref ''public'' ''employees_department_fkey'' ''public'' ''departments_pkey'',
        mk_ref ''public'' ''employees_manager_fkey'' ''public'' ''employees_pkey'']
       [mk_primary ''public'' ''departments_pkey'', mk_primary ''public'' ''employees_pkey'']
       [mk_column ''public'' ''departments'' ''id'' 1 ''NO'' ''integer'' None,
        mk_column ''public'' ''employees'' ''id'' 1 ''NO'' ''integer'' None,
        mk_column ''public'' ''employees'' ''department_id'' 2 ''NO'' ''integer'' None,
        mk_column ''public'' ''employees'' ''manager_id'' 3 ''YES'' ''integer'' None]"

text \<open>A nullable text column without default, and the column schema made of it.\<close>

definition note_column :: column_record where
  "note_column =
     \<lparr>rec_column_name = ''note'', rec_is_nullable = Some True, rec_data_type = ''text'',
      rec_column_default = None, rec_character_maximum_length = None,
      rec_is_identity = Some False, rec_description = None\<rparr>"

definition note_schema :: "string ColumnSchema" where
  "note_schema =
     \<lparr>name = ''note'', data_type = Optional PyStr, default = None, description = None,
      references = None\<rparr>"

section \<open>Properties of the type mapper\<close>

lemma py_type_of_recognized:
  "db_type \<in> set recognized_types \<Longrightarrow> \<exists>t. py_type_of db_type = Inr t"
  unfolding recognized_types_def py_type_of_def by auto

lemma py_type_of_unrecognized:
  "db_type \<notin> set recognized_types \<Longrightarrow> py_type_of db_type = Inl (UnrecognizedType db_type)"
  unfolding recognized_types_def py_type_of_def by simp

lemma column_schema_of_optional:
  assumes "column_schema_of cast column = Inr c"
  shows "is_optional_type (data_type c) =
           (truthy (rec_is_nullable column) \<and> rec_column_default column = None)"
proof -
  from assms obtain outer_type value_type d where
    m: "db_type_to_py_type (rec_data_type column) (truthy (rec_is_nullable column))
          (rec_column_default column \<noteq> None) = Inr (outer_type, value_type)"
    and c: "c = \<lparr>name = rec_column_name column, data_type = outer_type, default = d,
                 description = rec_description column, references = None\<rparr>"
    by (auto simp: column_schema_of_def split: sum.splits prod.splits)
  from m have "is_optional_type outer_type =
                 (truthy (rec_is_nullable column) \<and> rec_column_default column = None)"
    by (auto simp: db_type_to_py_type_def split: sum.splits if_splits)
  with c show ?thesis by simp
qed

text \<open>
  Claim C3. For a recognized native type name the mapper returns the primitive type of
  the lookup, wrapped as \<^verbatim>\<open>Optional\<close> exactly when the column is nullable and has no
  default; with a default it is the plain type whatever the nullability. So the type of
  a column schema is optional exactly when the column is nullable and its default in the
  catalog is absent.
\<close>

theorem db_type_to_py_type_nullable:
  assumes "db_type \<in> set recognized_types"
  shows "\<exists>py_type. py_type_of db_type = Inr py_type \<and>
           db_type_to_py_type db_type is_nullable has_default =
             Inr (if is_nullable \<and> \<not> has_default then Optional py_type else Plain py_type,
                  py_type) \<and>
           db_type_to_py_type db_type is_nullable True = Inr (Plain py_type, py_type) \<and>
           (column_schema_of cast column = Inr c \<longrightarrow>
              is_optional_type (data_type c) =
                (truthy (rec_is_nullable column) \<and> rec_column_default column = None))"
proof -
  from assms obtain t where "py_type_of db_type = Inr t"
    using py_type_of_recognized by blast
  then show ?thesis
    using column_schema_of_optional [of cast column c]
    by (simp add: db_type_to_py_type_def)
qed

theorem db_type_to_py_type_nullable_witness:
  "''text'' \<in> set recognized_types \<and>
   db_type_to_py_type ''text'' True False = Inr (Optional PyStr, PyStr) \<and>
   db_type_to_py_type ''text'' True True = Inr (Plain PyStr, PyStr) \<and>
   column_schema_of keep_literal note_column = Inr note_schema \<and>
   is_optional_type (data_type note_schema)"
proof -
  have h1: "''text'' \<in> set recognized_types"
    by (simp add: recognized_types_def)
  have h2: "column_schema_of keep_literal note_column = Inr note_schema"
    by code_simp
  have h3: "truthy (rec_is_nullable note_column) \<and> rec_column_default note_column = None"
    by (simp add: note_column_def truthy_def)
  have h4: "py_type_of ''text'' = Inr PyStr"
    by (simp add: py_type_of_def)
  from db_type_to_py_type_nullable [OF h1, of True False keep_literal note_column note_schema]
    h1 h2 h3 h4
  show ?thesis by auto
qed

section \<open>Unrecognized types\<close>

lemma column_schema_of_unrecognized:
  "rec_data_type column \<notin> set recognized_types \<Longrightarrow>
   column_schema_of cast column = Inl (UnrecognizedType (rec_data_type column))"
  by (simp add: column_schema_of_def db_type_to_py_type_def py_type_of_unrecognized)

lemma column_schemas_loop_unrecognized:
  "column \<in> set rows \<Longrightarrow> rec_data_type column \<notin> set recognized_types \<Longrightarrow>
   \<exists>e. column_schemas_loop cast rows acc = Inl e"
proof (induction rows arbitrary: acc)
  case Nil
  then show ?case by simp
next
  case (Cons r rows)
  show ?case
  proof (cases "column_schema_of cast r")
    case (Inl e)
    then show ?thesis by simp
  next
    case (Inr c)
    with Cons.prems have "column \<noteq> r"
      using column_schema_of_unrecognized [of column cast] by auto
    with Cons.prems have "column \<in> set rows" by simp
    with Cons.IH Cons.prems(2) Inr show ?thesis by simp
  qed
qed

lemma table_schemas_loop_error:
  "t \<in> set names \<Longrightarrow> get_table_schema cast db s t = Inl e \<Longrightarrow>
   \<exists>e'. table_schemas_loop cast db s names = Inl e'"
  by (induction names) (auto split: sum.splits)

lemma get_table_schema_unrecognized:
  assumes "column \<in> set (column_query db s t)"
    and "rec_data_type column \<notin> set recognized_types"
  shows "\<exists>e. get_table_schema cast db s t = Inl e"
proof -
  from assms obtain e where "column_schemas_loop cast (column_query db s t) [] = Inl e"
    using column_schemas_loop_unrecognized by blast
  then show ?thesis by (simp add: get_table_schema_def)
qed

text \<open>
  Claim C7. A native type name outside the lookup table makes the mapper fail with the
  unrecognized-type error, whatever the two flags: there is no fallback type. A table
  with a column of such a type yields an error and no table schema, and when the table
  is among the names of the dependency query, the catalog builder and \<open>main\<close> end
  with an error as well.
\<close>

theorem unrecognized_type_fatal:
  assumes "rec_data_type column \<notin> set recognized_types"
  shows "db_type_to_py_type (rec_data_type column) is_nullable has_default =
           Inl (UnrecognizedType (rec_data_type column)) \<and>
         (column \<in> set (column_query db db_schema db_table) \<longrightarrow>
            (\<exists>e. get_table_schema cast db db_schema db_table = Inl e) \<and>
            (\<forall>names. table_names db db_schema = Inr names \<and> db_table \<in> set names \<longrightarrow>
               (\<exists>e. get_catalog_schema cast db db_schema = Inl e \<and>
                    main cast iskeyword rejects db db_schema = Inl e)))"
proof (intro conjI impI allI)
  show "db_type_to_py_type (rec_data_type column) is_nullable has_default =
          Inl (UnrecognizedType (rec_data_type column))"
    using assms by (simp add: db_type_to_py_type_def py_type_of_unrecognized)
next
  assume "column \<in> set (column_query db db_schema db_table)"
  then show "\<exists>e. get_table_schema cast db db_schema db_table = Inl e"
    using assms get_table_schema_unrecognized by blast
next
  fix names
  assume c: "column \<in> set (column_query db db_schema db_table)"
    and n: "table_names db db_schema = Inr names \<and> db_table \<in> set names"
  from c assms obtain e where "get_table_schema cast db db_schema db_table = Inl e"
    using get_table_schema_unrecognized by blast
  with n obtain e' where "table_schemas_loop cast db db_schema names = Inl e'"
    using table_schemas_loop_error by blast
  with n show "\<exists>e. get_catalog_schema cast db db_schema = Inl e \<and>
                   main cast iskeyword rejects db db_schema = Inl e"
    by (simp add: get_catalog_schema_def main_def)
qed

theorem unrecognized_type_fatal_witness:
  "rec_data_type uuid_column \<notin> set recognized_types \<and>
   uuid_column \<in> set (column_query db_uuid ''public'' ''users'') \<and>
   table_names db_uuid ''public'' = Inr [''users''] \<and>
   db_type_to_py_type (rec_data_type uuid_column) True False = Inl (UnrecognizedType ''uuid'') \<and>
   (\<exists>e. get_table_schema keep_literal db_uuid ''public'' ''users'' = Inl e) \<and>
   (\<exists>e. get_catalog_schema keep_literal db_uuid ''public'' = Inl e \<and>
        main keep_literal (\<lambda>n. False) (\<lambda>n fs. None) db_uuid ''public'' = Inl e)"
proof -
  have h1: "rec_data_type uuid_column \<notin> set recognized_types"
    by (simp add: recognized_types_def uuid_column_def)
  have h2: "uuid_column \<in> set (column_query db_uuid ''public'' ''users'')"
    by code_simp
  have h3: "table_names db_uuid ''public'' = Inr [''users'']"
    by code_simp
  have h4: "rec_data_type uuid_column = ''uuid''"
    by (simp add: uuid_column_def)
  show ?thesis
    using h1 h2 h3 h4
      unrecognized_type_fatal [OF h1, of True False db_uuid "''public''" "''users''"
        keep_literal "\<lambda>n. False" "\<lambda>n fs. None"]
    by simp
qed

section \<open>The arity of the primary key\<close>

lemma set_foreign_keys_table_name:
  "set_foreign_keys db s t = Inr t' \<Longrightarrow> table_name t' = table_name t"
  by (auto simp: set_foreign_keys_def split: sum.splits)

lemma primary_key_set_unique_keys:
  "primary_key (set_unique_keys db s t) = spec_primary_key (unique_key_query db s (table_name t))"
  by (simp add: set_unique_keys_def spec_primary_key_def Let_def split: list.splits)

text \<open>
  Claim C5. The primary key that \<^verbatim>\<open>_set_unique_keys\<close> stores is the one the
  specification describes for the rows of the primary-key query: none for no row, a
  single column for one row, and for two or more rows the columns in row order under the
  constraint name of the first row. The table schema that \<^verbatim>\<open>_get_table_schema\<close> returns
  carries that key.
\<close>

theorem primary_key_arity:
  "primary_key (set_unique_keys db db_schema table_schema) =
     spec_primary_key (unique_key_query db db_schema (table_name table_schema)) \<and>
   (get_table_schema cast db db_schema db_table = Inr result \<longrightarrow>
      primary_key result = spec_primary_key (unique_key_query db db_schema db_table))"
proof (intro conjI impI)
  show "primary_key (set_unique_keys db db_schema table_schema) =
          spec_primary_key (unique_key_query db db_schema (table_name table_schema))"
    by (rule primary_key_set_unique_keys)
next
  assume "get_table_schema cast db db_schema db_table = Inr result"
  then obtain cols t where
    t: "set_foreign_keys db db_schema
          \<lparr>table_name = db_table,
           table_description = typed_fetch_value (table_description_query db db_schema db_table),
           columns = cols, primary_key = None\<rparr> = Inr t"
    and r: "result = set_unique_keys db db_schema t"
    by (auto simp: get_table_schema_def Let_def split: sum.splits)
  from t have "table_name t = db_table"
    using set_foreign_keys_table_name by fastforce
  with r show "primary_key result = spec_primary_key (unique_key_query db db_schema db_table)"
    by (simp add: primary_key_set_unique_keys)
qed

theorem primary_key_arity_witness:
  "map key_column (unique_key_query db_order_lines ''public'' ''order_lines'') =
     [''order_id'', ''line_no''] \<and>
   (\<exists>result. get_table_schema keep_literal db_order_lines ''public'' ''order_lines'' = Inr result \<and>
      primary_key result =
        Some \<lparr>pk_name = ''order_lines_pkey'', pk_column = Composite [''order_id'', ''line_no'']\<rparr>)"
proof -
  have q: "unique_key_query db_order_lines ''public'' ''order_lines'' =
      [\<lparr>key_name = ''order_lines_pkey'', key_schema = ''public'',
        key_table = ''order_lines'', key_column = ''order_id''\<rparr>,
       \<lparr>key_name = ''order_lines_pkey'', key_schema = ''public'',
        key_table = ''order_lines'', key_column = ''line_no''\<rparr>]"
    by code_simp
  have "\<not> isl (get_table_schema keep_literal db_order_lines ''public'' ''order_lines'')"
    by code_simp
  then obtain result where
    r: "get_table_schema keep_literal db_order_lines ''public'' ''order_lines'' = Inr result"
    by (cases "get_table_schema keep_literal db_order_lines ''public'' ''order_lines''") auto
  from primary_key_arity [of db_order_lines "''public''" result keep_literal "''order_lines''" result] r
  have "primary_key result =
          spec_primary_key (unique_key_query db_order_lines ''public'' ''order_lines'')"
    by simp
  with q r show ?thesis by (simp add: spec_primary_key_def)
qed

section \<open>The order of the fields of a data class\<close>

lemma insort_key_bool_true:
  fixes f :: "'a \<Rightarrow> bool"
  assumes "f x" and "\<forall>a \<in> set A. \<not> f a" and "\<forall>b \<in> set B. f b"
  shows "insort_key f x (A @ B) = A @ x # B"
  using assms
proof (induction A)
  case Nil
  then show ?case by (cases B) auto
next
  case (Cons a A)
  then show ?case by auto
qed

lemma insort_key_bool_false:
  fixes f :: "'a \<Rightarrow> bool"
  assumes "\<not> f x"
  shows "insort_key f x xs = x # xs"
  using assms by (cases xs) auto

lemma sort_key_bool:
  fixes f :: "'a \<Rightarrow> bool"
  shows "sort_key f xs = filter (\<lambda>x. \<not> f x) xs @ filter f xs"
proof (induction xs)
  case Nil
  then show ?case by simp
next
  case (Cons x xs)
  show ?case
  proof (cases "f x")
    case True
    have "insort_key f x (filter (\<lambda>x. \<not> f x) xs @ filter f xs) =
            filter (\<lambda>x. \<not> f x) xs @ x # filter f xs"
      by (rule insort_key_bool_true) (use True in auto)
    with True Cons show ?thesis by simp
  next
    case False
    with Cons show ?thesis by (simp add: insort_key_bool_false)
  qed
qed

lemma table_to_dataclass_fields:
  assumes "table_to_dataclass iskeyword rejects table = Inr cls"
  shows "class_fields cls =
       sort_key (\<lambda>f. field_default f \<noteq> MISSING)
         (map (column_to_field iskeyword) (dict_values (columns table)))"
proof (cases "rejects (if iskeyword (table_name table) then table_name table @ ''_'' else table_name table)
     (sort_key (\<lambda>f. field_default f \<noteq> MISSING)
         (map (column_to_field iskeyword) (dict_values (columns table))))")
  case None
  with assms have "cls = \<lparr>class_name = (if iskeyword (table_name table) then table_name table @ ''_'' else table_name table),
      class_fields = sort_key (\<lambda>f. field_default f \<noteq> MISSING)
         (map (column_to_field iskeyword) (dict_values (columns table))),
                  class_doc = table_description table,
                  class_primary_key = primary_key table\<rparr>"
    by (simp add: table_to_dataclass_def Let_def)
  then show ?thesis by simp
next
  case (Some e)
  with assms show ?thesis by (simp add: table_to_dataclass_def Let_def)
qed

text \<open>
  Claim C10. The fields of the data class made for a table are the fields of its columns
  in column order, those without a default first and those with a default after them,
  each group in column order. A field has a default exactly when its column has a
  default value or an optional type.
\<close>

theorem table_to_dataclass_field_order:
  assumes "table_to_dataclass iskeyword rejects table = Inr cls"
  shows "class_fields cls =
           filter (\<lambda>f. field_default f = MISSING)
             (map (column_to_field iskeyword) (dict_values (columns table))) @
           filter (\<lambda>f. field_default f \<noteq> MISSING)
             (map (column_to_field iskeyword) (dict_values (columns table))) \<and>
         (field_default (column_to_field iskeyword column) \<noteq> MISSING) =
           (default column \<noteq> None \<or> is_optional_type (data_type column))"
proof
  from assms have
    "class_fields cls =
       sort_key (\<lambda>f. field_default f \<noteq> MISSING)
         (map (column_to_field iskeyword) (dict_values (columns table)))"
    by (rule table_to_dataclass_fields)
  then show "class_fields cls =
           filter (\<lambda>f. field_default f = MISSING)
             (map (column_to_field iskeyword) (dict_values (columns table))) @
           filter (\<lambda>f. field_default f \<noteq> MISSING)
             (map (column_to_field iskeyword) (dict_values (columns table)))"
    by (simp add: sort_key_bool)
next
  show "(field_default (column_to_field iskeyword column) \<noteq> MISSING) =
           (default column \<noteq> None \<or> is_optional_type (data_type column))"
    by (simp add: column_to_field_def)
qed

theorem table_to_dataclass_field_order_witness:
  "map name (dict_values (columns example_table)) = [''a'', ''b'', ''c'', ''d''] \<and>
   (\<exists>cls. table_to_dataclass (\<lambda>n. False) (\<lambda>n fs. None) example_table = Inr cls \<and>
      map field_name (class_fields cls) = [''b'', ''d'', ''a'', ''c''])"
proof -
  have "\<exists>cls. table_to_dataclass (\<lambda>n. False) (\<lambda>n fs. None) example_table = Inr cls"
    by (simp add: table_to_dataclass_def Let_def)
  then obtain cls where
    t: "table_to_dataclass (\<lambda>n. False) (\<lambda>n fs. None) example_table = Inr cls" ..
  have f: "map field_name (class_fields cls) = [''b'', ''d'', ''a'', ''c'']"
    using table_to_dataclass_field_order [OF t, THEN conjunct1]
    by (simp add: example_table_def dict_values_def column_to_field_def)
  have c: "map name (dict_values (columns example_table)) = [''a'', ''b'', ''c'', ''d'']"
    by (simp add: example_table_def dict_values_def)
  show ?thesis
  proof (intro conjI exI [of _ cls])
    show "map name (dict_values (columns example_table)) = [''a'', ''b'', ''c'', ''d'']"
      by (rule c)
    show "table_to_dataclass (\<lambda>n. False) (\<lambda>n fs. None) example_table = Inr cls"
      by (rule t)
    show "map field_name (class_fields cls) = [''b'', ''d'', ''a'', ''c'']"
      by (rule f)
  qed
qed

section \<open>The empty catalog\<close>

text \<open>
  Claim C4 as stated fails: for a schema without tables \<^verbatim>\<open>get_catalog_schema\<close> returns a
  catalog with an empty table dictionary, not an error.
\<close>

theorem get_catalog_schema_empty_counterexample:
  "table_names db_empty ''public'' = Inr [] \<and>
   get_catalog_schema keep_literal db_empty ''public'' =
     Inr \<lparr>catalog_name = ''public'', tables = []\<rparr>"
  by code_simp

text \<open>
  Claim C4, amended. When the dependency query returns no table, \<^verbatim>\<open>get_catalog_schema\<close>
  returns the catalog with no tables, which is false as a truth value, and it is \<open>main\<close>
  that fails with the error of the empty schema.
\<close>

theorem empty_schema_raised_by_main:
  assumes "table_names db db_schema = Inr []"
  shows "get_catalog_schema cast db db_schema =
           Inr \<lparr>catalog_name = db_schema, tables = []\<rparr> \<and>
         main cast iskeyword rejects db db_schema = Inl (EmptySchema db_schema)"
  using assms by (simp add: get_catalog_schema_def main_def dict_of_def catalog_bool_def)

theorem empty_schema_raised_by_main_witness:
  "table_names db_empty ''public'' = Inr [] \<and>
   main keep_literal (\<lambda>n. False) (\<lambda>n fs. None) db_empty ''public'' =
     Inl (EmptySchema ''public'')"
proof -
  have h: "table_names db_empty ''public'' = Inr []"
    by code_simp
  from empty_schema_raised_by_main [OF h, of keep_literal "\<lambda>n. False" "\<lambda>n fs. None"] h
  show ?thesis by simp
qed

section \<open>The foreign-key pass\<close>

lemma map_of_dict_set:
  "map_of (dict_set d k v) k' = (if k' = k then Some v else map_of d k')"
  by (induction d k v rule: dict_set.induct) auto

lemma foreign_keys_loop_append:
  "foreign_keys_loop (xs @ ys) cols =
     (case foreign_keys_loop xs cols of Inl e \<Rightarrow> Inl e | Inr cols' \<Rightarrow> foreign_keys_loop ys cols')"
  by (induction xs arbitrary: cols) (auto split: option.splits)

lemma foreign_keys_loop_duplicate:
  assumes "(\<exists>r \<in> set rows. \<exists>col. map_of cols (foreign_key_column r) = Some col \<and> references col \<noteq> None)
           \<or> \<not> distinct (map foreign_key_column rows)"
  shows "\<exists>e. foreign_keys_loop rows cols = Inl e"
  using assms
proof (induction rows arbitrary: cols)
  case Nil
  then show ?case by simp
next
  case (Cons r rows)
  show ?case
  proof (cases "foreign_key_schema r \<noteq> primary_key_schema r")
    case True
    then show ?thesis by simp
  next
    case same: False
    show ?thesis
    proof (cases "map_of cols (foreign_key_column r)")
      case None
      with same show ?thesis by simp
    next
      case (Some column)
      show ?thesis
      proof (cases "references column \<noteq> None")
        case True
        with same Some show ?thesis by simp
      next
        case fresh: False
        define cols' where "cols' = dict_set cols (foreign_key_column r)
                    (column\<lparr>references :=
                       Some \<lparr>fk_name = foreign_key_name r,
                             fk_references =
                               \<lparr>ref_table = primary_key_table r,
                                ref_column = primary_key_column r\<rparr>\<rparr>\<rparr>)"
        have step: "foreign_keys_loop (r # rows) cols = foreign_keys_loop rows cols'"
          using same Some fresh by (simp add: cols'_def)
        have kept: "\<exists>col. map_of cols' c = Some col \<and> references col \<noteq> None"
          if "(\<exists>col. map_of cols c = Some col \<and> references col \<noteq> None) \<or> c = foreign_key_column r" for c
          using that by (auto simp: cols'_def map_of_dict_set)
        have "(\<exists>r' \<in> set rows. \<exists>col. map_of cols' (foreign_key_column r') = Some col \<and> references col \<noteq> None)
              \<or> \<not> distinct (map foreign_key_column rows)"
        proof (cases "distinct (map foreign_key_column rows)")
          case False
          then show ?thesis by simp
        next
          case True
          from Cons.prems consider
            (a) r' col where "r' \<in> set (r # rows)" "map_of cols (foreign_key_column r') = Some col" "references col \<noteq> None"
            | (b) "\<not> distinct (map foreign_key_column (r # rows))"
            by blast
          then show ?thesis
          proof cases
            case a
            with Some fresh have "r' \<noteq> r" by auto
            with a have "r' \<in> set rows" by simp
            moreover from a have "\<exists>col. map_of cols' (foreign_key_column r') = Some col \<and> references col \<noteq> None"
              using kept by blast
            ultimately show ?thesis by blast
          next
            case b
            with True obtain r' where "r' \<in> set rows" "foreign_key_column r' = foreign_key_column r"
              by auto
            then show ?thesis using kept [of "foreign_key_column r'"] by auto
          qed
        qed
        then have "\<exists>e. foreign_keys_loop rows cols' = Inl e"
          by (rule Cons.IH)
        with step show ?thesis by simp
      qed
    qed
  qed
qed

lemma foreign_keys_loop_well_formed:
  assumes "\<forall>r \<in> set rows. foreign_key_schema r = primary_key_schema r \<and>
             map_of cols (foreign_key_column r) \<noteq> None"
  shows "(\<exists>cols'. foreign_keys_loop rows cols = Inr cols') \<or>
         (\<exists>c. foreign_keys_loop rows cols = Inl (DuplicateForeignKey c))"
  using assms
proof (induction rows arbitrary: cols)
  case Nil
  then show ?case by simp
next
  case (Cons r rows)
  from Cons.prems obtain column where col: "map_of cols (foreign_key_column r) = Some column"
    and same: "foreign_key_schema r = primary_key_schema r"
    by auto
  show ?case
  proof (cases "references column \<noteq> None")
    case True
    with col same show ?thesis by simp
  next
    case False
    define cols' where "cols' = dict_set cols (foreign_key_column r)
                    (column\<lparr>references :=
                       Some \<lparr>fk_name = foreign_key_name r,
                             fk_references =
                               \<lparr>ref_table = primary_key_table r,
                                ref_column = primary_key_column r\<rparr>\<rparr>\<rparr>)"
    have step: "foreign_keys_loop (r # rows) cols = foreign_keys_loop rows cols'"
      using same col False by (simp add: cols'_def)
    have "\<forall>r' \<in> set rows. foreign_key_schema r' = primary_key_schema r' \<and>
             map_of cols' (foreign_key_column r') \<noteq> None"
      using Cons.prems by (auto simp: cols'_def map_of_dict_set)
    then have "(\<exists>c. foreign_keys_loop rows cols' = Inr c) \<or>
         (\<exists>c. foreign_keys_loop rows cols' = Inl (DuplicateForeignKey c))"
      by (rule Cons.IH)
    with step show ?thesis by simp
  qed
qed

lemma set_foreign_keys_duplicate:
  assumes "\<not> distinct (map foreign_key_column (foreign_key_query db s (table_name t)))"
  shows "\<exists>e. set_foreign_keys db s t = Inl e"
proof -
  from assms obtain e where
    "foreign_keys_loop (foreign_key_query db s (table_name t)) (columns t) = Inl e"
    using foreign_keys_loop_duplicate by blast
  then show ?thesis by (simp add: set_foreign_keys_def)
qed

lemma get_table_schema_foreign_keys_error:
  assumes "\<And>t :: 'v TableSchema. table_name t = db_table \<Longrightarrow> \<exists>e. set_foreign_keys db s t = Inl e"
  shows "\<exists>e. get_table_schema (cast :: py_type \<Rightarrow> string \<Rightarrow> error + 'v) db s db_table = Inl e"
proof (cases "column_schemas_loop cast (column_query db s db_table) []")
  case (Inl e)
  then show ?thesis by (simp add: get_table_schema_def)
next
  case (Inr cols)
  have "\<exists>e. set_foreign_keys db s
          \<lparr>table_name = db_table,
           table_description = typed_fetch_value (table_description_query db s db_table),
           columns = cols, primary_key = None\<rparr> = Inl e"
    by (rule assms) simp
  with Inr show ?thesis by (auto simp: get_table_schema_def)
qed

lemma not_distinct_take:
  "\<not> distinct (map f (take n xs)) \<Longrightarrow> \<not> distinct (map f xs)"
  by (metis distinct_take take_map)

text \<open>
  Claim C6 as stated fails: a foreign key of two columns into another schema gives rows
  that name the same foreign-key column twice, and the pass fails on the first row with
  the cross-schema error, not with the error of the duplicate.
\<close>

theorem duplicate_foreign_key_counterexample:
  "\<not> distinct (map foreign_key_column (foreign_key_query db_cross_composite ''public'' ''t'')) \<and>
   get_table_schema keep_literal db_cross_composite ''public'' ''t'' =
     Inl (CrossSchemaReference ''public'' ''other'')"
  by code_simp

text \<open>
  Claim C6, amended. When the first \<open>n\<close> rows of the foreign-key query name a column
  twice, the pass fails and no table schema is returned. The error is the one of the
  duplicate foreign key when each of these rows stays within one schema and names a
  column of the table; otherwise an earlier check has failed first.
\<close>

theorem duplicate_foreign_key_rejected:
  assumes "\<not> distinct (map foreign_key_column
             (take n (foreign_key_query db db_schema (table_name table_schema))))"
  shows "(\<exists>e. set_foreign_keys db db_schema table_schema = Inl e) \<and>
         (\<exists>e. get_table_schema cast db db_schema (table_name table_schema) = Inl e) \<and>
         ((\<forall>r \<in> set (take n (foreign_key_query db db_schema (table_name table_schema))).
              foreign_key_schema r = primary_key_schema r \<and>
              map_of (columns table_schema) (foreign_key_column r) \<noteq> None) \<longrightarrow>
          (\<exists>c. set_foreign_keys db db_schema table_schema = Inl (DuplicateForeignKey c)))"
proof (intro conjI impI)
  let ?rows = "foreign_key_query db db_schema (table_name table_schema)"
  from assms have dup: "\<not> distinct (map foreign_key_column ?rows)"
    by (rule not_distinct_take)
  then show "\<exists>e. set_foreign_keys db db_schema table_schema = Inl e"
    by (rule set_foreign_keys_duplicate)
  show "\<exists>e. get_table_schema cast db db_schema (table_name table_schema) = Inl e"
  proof (rule get_table_schema_foreign_keys_error)
    fix t :: "'b TableSchema"
    assume "table_name t = table_name table_schema"
    with dup show "\<exists>e. set_foreign_keys db db_schema t = Inl e"
      using set_foreign_keys_duplicate [of db db_schema t] by simp
  qed
  assume wf: "\<forall>r \<in> set (take n ?rows).
                foreign_key_schema r = primary_key_schema r \<and>
                map_of (columns table_schema) (foreign_key_column r) \<noteq> None"
  from assms obtain e where e: "foreign_keys_loop (take n ?rows) (columns table_schema) = Inl e"
    using foreign_keys_loop_duplicate by blast
  with foreign_keys_loop_well_formed [OF wf] obtain c where
    c: "foreign_keys_loop (take n ?rows) (columns table_schema) = Inl (DuplicateForeignKey c)"
    by auto
  have "foreign_keys_loop (take n ?rows @ drop n ?rows) (columns table_schema) =
          Inl (DuplicateForeignKey c)"
    using c by (simp only: foreign_keys_loop_append sum.case)
  then have "foreign_keys_loop ?rows (columns table_schema) = Inl (DuplicateForeignKey c)"
    by simp
  then show "\<exists>c. set_foreign_keys db db_schema table_schema = Inl (DuplicateForeignKey c)"
    by (simp add: set_foreign_keys_def)
qed

theorem duplicate_foreign_key_rejected_witness:
  "\<not> distinct (map foreign_key_column
       (take 3 (foreign_key_query db_composite_fk ''public'' (table_name (table_t [''a'', ''b''])))))  \<and>
   list_all
     (\<lambda>r. foreign_key_schema r = primary_key_schema r \<and>
          map_of (columns (table_t [''a'', ''b''])) (foreign_key_column r) \<noteq> None)
     (take 3 (foreign_key_query db_composite_fk ''public'' (table_name (table_t [''a'', ''b''])))) \<and>
   (\<exists>c. set_foreign_keys db_composite_fk ''public'' (table_t [''a'', ''b'']) =
          Inl (DuplicateForeignKey c)) \<and>
   (\<exists>e. get_table_schema keep_literal db_composite_fk ''public'' (table_name (table_t [''a'', ''b''])) = Inl e)"
proof -
  have h1: "\<not> distinct (map foreign_key_column
       (take 3 (foreign_key_query db_composite_fk ''public'' (table_name (table_t [''a'', ''b''])))))"
    by code_simp
  have h2: "\<forall>r \<in> set (take 3 (foreign_key_query db_composite_fk ''public'' (table_name (table_t [''a'', ''b''])))).
      foreign_key_schema r = primary_key_schema r \<and>
      map_of (columns (table_t [''a'', ''b''])) (foreign_key_column r) \<noteq> None"
    by code_simp
  from duplicate_foreign_key_rejected [OF h1, of keep_literal] h1 h2
  show ?thesis by (simp add: list_all_iff)
qed

text \<open>
  Claim C9 as stated fails: when a foreign key of two columns comes before the key into
  another schema, the pass has already failed with the error of the duplicate foreign
  key before it reads the cross-schema row.
\<close>

theorem cross_schema_counterexample:
  "(\<exists>r \<in> set (foreign_key_query db_cross_after_duplicate ''public'' ''t'').
      foreign_key_schema r \<noteq> primary_key_schema r) \<and>
   get_table_schema keep_literal db_cross_after_duplicate ''public'' ''t'' =
     Inl (DuplicateForeignKey ''a'')"
  by code_simp

text \<open>
  Claim C9, amended. A row whose two schemas differ is never attached: the pass fails and
  no table schema is returned. The error is the cross-schema error when the rows before
  that row have been attached without error, so that the loop reaches it.
\<close>

theorem cross_schema_rejected:
  assumes "foreign_key_query db db_schema (table_name table_schema) = pre @ r # post"
    and "foreign_key_schema r \<noteq> primary_key_schema r"
  shows "(\<exists>e. set_foreign_keys db db_schema table_schema = Inl e) \<and>
         (\<exists>e. get_table_schema cast db db_schema (table_name table_schema) = Inl e) \<and>
         (\<not> isl (foreign_keys_loop pre (columns table_schema)) \<longrightarrow>
            set_foreign_keys db db_schema table_schema =
              Inl (CrossSchemaReference (foreign_key_schema r) (primary_key_schema r)))"
proof (intro conjI impI)
  have loop: "foreign_keys_loop (pre @ r # post) cols =
      (case foreign_keys_loop pre cols of
         Inl e \<Rightarrow> Inl e
       | Inr cols' \<Rightarrow> Inl (CrossSchemaReference (foreign_key_schema r) (primary_key_schema r)))"
    for cols :: "(string \<times> 'c ColumnSchema) list"
    using assms(2) by (simp add: foreign_keys_loop_append split: sum.splits)
  show "\<exists>e. set_foreign_keys db db_schema table_schema = Inl e"
    using assms(1) loop [of "columns table_schema"]
    by (auto simp: set_foreign_keys_def split: sum.splits)
  show "\<exists>e. get_table_schema cast db db_schema (table_name table_schema) = Inl e"
  proof (rule get_table_schema_foreign_keys_error)
    fix t :: "'b TableSchema"
    assume "table_name t = table_name table_schema"
    with assms(1) have "foreign_key_query db db_schema (table_name t) = pre @ r # post"
      by simp
    moreover have "foreign_keys_loop (pre @ r # post) (columns t) =
      (case foreign_keys_loop pre (columns t) of
         Inl e \<Rightarrow> Inl e
       | Inr cols' \<Rightarrow> Inl (CrossSchemaReference (foreign_key_schema r) (primary_key_schema r)))"
      using assms(2) by (simp add: foreign_keys_loop_append split: sum.splits)
    ultimately show "\<exists>e. set_foreign_keys db db_schema t = Inl e"
      by (auto simp: set_foreign_keys_def split: sum.splits)
  qed
  assume "\<not> isl (foreign_keys_loop pre (columns table_schema))"
  then show "set_foreign_keys db db_schema table_schema =
               Inl (CrossSchemaReference (foreign_key_schema r) (primary_key_schema r))"
    using assms(1) loop [of "columns table_schema"]
    by (auto simp: set_foreign_keys_def split: sum.splits)
qed

theorem cross_schema_rejected_witness:
  "foreign_key_query db_cross_schema ''public'' (table_name (table_t [''a'', ''c''])) =
     [row_t_a] @ row_t_c # [] \<and>
   foreign_key_schema row_t_c \<noteq> primary_key_schema row_t_c \<and>
   \<not> isl (foreign_keys_loop [row_t_a] (columns (table_t [''a'', ''c'']))) \<and>
   set_foreign_keys db_cross_schema ''public'' (table_t [''a'', ''c'']) =
     Inl (CrossSchemaReference ''public'' ''other'') \<and>
   (\<exists>e. get_table_schema keep_literal db_cross_schema ''public''
           (table_name (table_t [''a'', ''c''])) = Inl e)"
proof -
  have h1: "foreign_key_query db_cross_schema ''public'' (table_name (table_t [''a'', ''c''])) =
     [row_t_a] @ row_t_c # []"
    by code_simp
  have h2: "foreign_key_schema row_t_c \<noteq> primary_key_schema row_t_c"
    by (simp add: row_t_c_def)
  have h3: "\<not> isl (foreign_keys_loop [row_t_a] (columns (table_t [''a'', ''c''])))"
    by code_simp
  have h4: "foreign_key_schema row_t_c = ''public''" "primary_key_schema row_t_c = ''other''"
    by (simp_all add: row_t_c_def)
  from cross_schema_rejected [OF h1 h2, of keep_literal] h1 h2 h3 h4
  show ?thesis by simp
qed

section \<open>The dependency query\<close>

lemma in_concat_map: "y \<in> set xs \<Longrightarrow> x \<in> set (f y) \<Longrightarrow> x \<in> set (concat (map f xs))"
  by auto

lemma recursive_rows_member:
  assumes "(ref_con, pkey, fkey) \<in> set (ref_joins db)"
    and "tab \<in> set (information_schema_tables db)"
    and "same_table tab fkey"
    and "dep \<in> set working"
    and "child dep = (kcu_table_catalog pkey, kcu_table_schema pkey, kcu_table_name pkey)"
    and "tab_catalog tab = current_catalog db" and "tab_schema tab = db_schema"
  shows "\<lparr>depth = depth dep + 1, parent = Some (child dep),
          child = (tab_catalog tab, tab_schema tab, tab_name tab)\<rparr>
           \<in> set (recursive_rows db db_schema working)"
  unfolding recursive_rows_def
  apply (rule in_concat_map [OF assms(1)])
  apply (simp only: prod.case)
  apply (rule in_concat_map [OF assms(2)])
  apply (simp only: assms(3) if_True)
  apply (rule in_concat_map [OF assms(4)])
  apply (simp add: assms)
  done

lemma recursive_dependencies_cases:
  "recursive_dependencies db s w = Inl (QueryError ''integer out of range'') \<or>
   recursive_dependencies db s w = Inr (recursive_rows db s w)"
  by (simp add: recursive_dependencies_def Let_def)

lemma dependencies_from_overflows:
  assumes "\<And>w. I w \<Longrightarrow> w \<noteq> [] \<and> I (recursive_rows db s w)"
    and "I working"
  shows "dependencies_from db s result working = Inl (QueryError ''integer out of range'')"
  using assms
proof (induction db s result working rule: dependencies_from.induct)
  case (1 db s result working)
  from "1.prems" have ne: "working \<noteq> []" and next_inv: "I (recursive_rows db s working)"
    by auto
  from recursive_dependencies_cases [of db s working] show ?case
  proof
    assume "recursive_dependencies db s working = Inl (QueryError ''integer out of range'')"
    with ne show ?thesis by (simp add: dependencies_from.simps)
  next
    assume r: "recursive_dependencies db s working = Inr (recursive_rows db s working)"
    from "1.IH" [OF ne r "1.prems"(1) next_inv]
    have "dependencies_from db s (result @ working) (recursive_rows db s working) =
            Inl (QueryError ''integer out of range'')" .
    with ne r show ?thesis by (simp add: dependencies_from.simps)
  qed
qed

lemma employees_step:
  assumes "(''db'', ''public'', ''employees'') \<in> child ` set w"
  shows "w \<noteq> [] \<and>
         (''db'', ''public'', ''employees'') \<in> child ` set (recursive_rows db_employees ''public'' w)"
proof
  from assms show "w \<noteq> []" by auto
  from assms obtain dep where dep: "dep \<in> set w" "child dep = (''db'', ''public'', ''employees'')"
    by auto
  let ?ref = "mk_ref ''public'' ''employees_manager_fkey'' ''public'' ''employees_pkey''"
  let ?pkey = "mk_key ''public'' ''employees_pkey'' ''employees'' ''id''"
  let ?fkey = "mk_key ''public'' ''employees_manager_fkey'' ''employees'' ''manager_id''"
  let ?tab = "mk_table ''public'' ''employees''"
  have j: "(?ref, ?pkey, ?fkey) \<in> set (ref_joins db_employees)"
    by code_simp
  have t: "?tab \<in> set (information_schema_tables db_employees)"
    by code_simp
  have s: "same_table ?tab ?fkey"
    by code_simp
  have c: "child dep = (kcu_table_catalog ?pkey, kcu_table_schema ?pkey, kcu_table_name ?pkey)"
    using dep by (simp add: mk_key_def)
  have cat: "tab_catalog ?tab = current_catalog db_employees"
    by (simp add: mk_table_def db_employees_def mk_database_def)
  have sch: "tab_schema ?tab = ''public''"
    by (simp add: mk_table_def)
  from recursive_rows_member [OF j t s dep(1) c cat sch]
  have "\<lparr>depth = depth dep + 1, parent = Some (child dep),
          child = (tab_catalog ?tab, tab_schema ?tab, tab_name ?tab)\<rparr>
           \<in> set (recursive_rows db_employees ''public'' w)" .
  then have "child \<lparr>depth = depth dep + 1, parent = Some (child dep),
          child = (tab_catalog ?tab, tab_schema ?tab, tab_name ?tab)\<rparr>
           \<in> child ` set (recursive_rows db_employees ''public'' w)"
    by (rule imageI)
  then show "(''db'', ''public'', ''employees'') \<in> child ` set (recursive_rows db_employees ''public'' w)"
    by (simp add: mk_table_def)
qed

lemma employees_base:
  "base_dependencies db_employees ''public'' \<noteq> [] \<and>
   recursive_dependencies db_employees ''public'' (base_dependencies db_employees ''public'') =
     Inr (recursive_rows db_employees ''public'' (base_dependencies db_employees ''public'')) \<and>
   (''db'', ''public'', ''employees'') \<in>
     child ` set (recursive_rows db_employees ''public''
                    (base_dependencies db_employees ''public''))"
  by code_simp

lemma employees_overflows:
  "dependencies db_employees ''public'' = Inl (QueryError ''integer out of range'')"
proof -
  have "dependencies db_employees ''public'' =
          dependencies_from db_employees ''public''
            ([] @ base_dependencies db_employees ''public'')
            (recursive_rows db_employees ''public''
               (base_dependencies db_employees ''public''))"
    unfolding dependencies_def
    by (subst dependencies_from.simps) (simp add: employees_base)
  also have "\<dots> = Inl (QueryError ''integer out of range'')"
  proof (rule dependencies_from_overflows
      [where I = "\<lambda>w. (''db'', ''public'', ''employees'') \<in> child ` set w"])
    fix w :: "dependency list"
    assume "(''db'', ''public'', ''employees'') \<in> child ` set w"
    then show "w \<noteq> [] \<and>
      (''db'', ''public'', ''employees'') \<in>
        child ` set (recursive_rows db_employees ''public'' w)"
      by (rule employees_step)
  next
    show "(''db'', ''public'', ''employees'') \<in>
      child ` set (recursive_rows db_employees ''public''
                     (base_dependencies db_employees ''public''))"
      using employees_base by simp
  qed
  finally show ?thesis .
qed

text \<open>
  Claim C1, evaluated where it fails. Table \<open>m\<close> references table \<open>z\<close>, both tables
  are in the result of the dependency query, and \<open>z\<close> comes after \<open>m\<close>: both are
  reached from \<open>a\<close> in the first round, so both have the smallest depth 2, and the name
  decides. \<^verbatim>\<open>get_catalog_schema\<close> loads the tables in that order.
\<close>

theorem dependency_order_violated:
  "''z'' \<in> set (map primary_key_table (foreign_key_query db_amz ''public'' ''m'')) \<and>
   map_sum id (map (\<lambda>d. (depth d, child_name d))) (dependencies db_amz ''public'') =
     Inr [(1, ''a''), (2, ''m''), (2, ''z''), (3, ''m'')] \<and>
   table_names db_amz ''public'' = Inr [''a'', ''m'', ''z''] \<and>
   map_sum id (map fst \<circ> tables) (get_catalog_schema keep_literal db_amz ''public'') =
     Inr [''a'', ''m'', ''z'']"
  by code_simp

text \<open>
  Claim C2, evaluated where it fails. For \<open>C\<close> referencing \<open>B\<close> and \<open>A\<close>, and \<open>B\<close>
  referencing \<open>A\<close>, the recursive relation holds \<open>C\<close> at depth 2 (through \<open>A\<close>) and at
  depth 3 (through \<open>B\<close>); the depth that orders \<open>C\<close> is the smallest, 2. The result
  is \<open>A\<close>, \<open>B\<close>, \<open>C\<close>, each once.
\<close>

theorem shortcut_depth_is_two:
  "map_sum id (map (\<lambda>d. (depth d, child_name d))) (dependencies db_abc ''public'') =
     Inr [(1, ''A''), (2, ''B''), (2, ''C''), (3, ''C'')] \<and>
   map_sum id (\<lambda>rows. min_depth rows ''C'') (dependencies db_abc ''public'') = Inr 2 \<and>
   table_names db_abc ''public'' = Inr [''A'', ''B'', ''C'']"
  by code_simp

text \<open>
  Claim C8, evaluated where it fails. Table \<open>employees\<close> references itself and also
  \<open>departments\<close>, which has no foreign key. The first round of the recursion gives
  \<open>employees\<close> the depth 2, and every later round gives it the next depth through its
  reference to itself, so the working table is never empty. The query cannot end with a
  list of names: it ends when the depth passes the largest four-byte integer, with the
  database's error, and \<^verbatim>\<open>get_catalog_schema\<close> returns no catalog.
\<close>

theorem self_reference_overflows:
  "map (\<lambda>d. (depth d, child_name d))
     (recursive_rows db_employees ''public''
        (base_dependencies db_employees ''public'')) = [(2, ''employees'')] \<and>
   dependencies db_employees ''public'' = Inl (QueryError ''integer out of range'') \<and>
   table_names db_employees ''public'' = Inl (QueryError ''integer out of range'') \<and>
   get_catalog_schema keep_literal db_employees ''public'' =
     Inl (QueryError ''integer out of range'')"
proof -
  have "map (\<lambda>d. (depth d, child_name d))
     (recursive_rows db_employees ''public''
        (base_dependencies db_employees ''public'')) = [(2, ''employees'')]"
    by code_simp
  then show ?thesis
    by (simp add: table_names_def get_catalog_schema_def employees_overflows)
qed

end
